theory Spec2Isabelle
  imports Complex_Main
begin

section \<open>The blinky LED command player\<close>

text \<open>
  This theory embeds the thread body \<^verbatim>\<open>blinky.blinky\<close> of \<^verbatim>\<open>src/blinky.py\<close>: the
  loop that takes commands from a queue, resolves the save / restore / exit flag, decodes
  the three playback fields and plays the bitstream on one GPIO pin until the repeat count
  runs out, a new command is queued, or the thread exits.

  What the thread does to the outside world is recorded as a list of events: the driver
  call that sets the pin, every \<^verbatim>\<open>time.sleep\<close>, and every unconditional \<^verbatim>\<open>print\<close>
  (by kind; the text of a log line, and the lines printed only under \<^verbatim>\<open>debug\<close>, are
  not recorded). Driver calls are taken to succeed.
\<close>

subsection \<open>Python values and commands\<close>

text \<open>
  A command is a Python list. Its elements are the two kinds of value the module's
  documentation and the demo program put there: integers and strings.
\<close>

datatype pyval = PInt int | PStr string

type_synonym command = "pyval list"

definition CMD_SAVE :: int where "CMD_SAVE = 1"
definition CMD_RESTORE :: int where "CMD_RESTORE = 2"
definition CMD_EXIT :: int where "CMD_EXIT = - 99"

datatype exn = TypeError | ValueError

text \<open>
  The driver is either a pigpio handle (any object that is not an \<^verbatim>\<open>int\<close>) or one of the
  two integer constants.
\<close>

datatype driver = Pigpio | DRIVER_RPIGPIO | DRIVER_GPIOZERO

text \<open>
  \<^verbatim>\<open>float\<close> and \<^verbatim>\<open>int\<close> applied to a string are Python built-ins with a large input
  grammar. The model takes them as parameters (\<open>None\<close> is \<^verbatim>\<open>ValueError\<close>), next to the
  instance's driver. A float is an exact rational here: rounding and the range of binary64
  are not represented.
\<close>

record env =
  driver :: driver
  float_of_str :: "string \<Rightarrow> rat option"
  int_of_str :: "string \<Rightarrow> int option"

fun py_float :: "env \<Rightarrow> pyval \<Rightarrow> exn + rat" where
  "py_float E (PInt n) = Inr (of_int n)"
| "py_float E (PStr s) = (case float_of_str E s of None \<Rightarrow> Inl ValueError | Some x \<Rightarrow> Inr x)"

fun py_int :: "env \<Rightarrow> pyval \<Rightarrow> exn + int" where
  "py_int E (PInt n) = Inr n"
| "py_int E (PStr s) = (case int_of_str E s of None \<Rightarrow> Inl ValueError | Some n \<Rightarrow> Inr n)"

text \<open>\<^verbatim>\<open>list(x)\<close>: the characters of a string; an \<^verbatim>\<open>int\<close> is not iterable.\<close>

fun py_list :: "pyval \<Rightarrow> exn + string" where
  "py_list (PStr s) = Inr s"
| "py_list (PInt n) = Inl TypeError"

text \<open>\<^verbatim>\<open>int(bit)\<close> for a one-character string: a decimal digit, or \<^verbatim>\<open>ValueError\<close>.\<close>

definition int_bit :: "char \<Rightarrow> int option" where
  "int_bit c =
     (let n = of_char c :: nat in
      if 48 \<le> n \<and> n \<le> 57 then Some (int n - 48) else None)"

subsection \<open>The queue and its producers\<close>

text \<open>
  The thread touches its queue only through \<^verbatim>\<open>queue.get()\<close> and \<^verbatim>\<open>queue.empty()\<close>.
  Other threads put commands at any time. A world is the queue as the thread last saw it
  together with a feed: the batches of commands the producers put between one queue
  operation of the thread and the next, in order. An exhausted feed means that nothing is
  put any more.
\<close>

type_synonym world = "command list \<times> command list list"

fun observe :: "world \<Rightarrow> world" where
  "observe (q, []) = (q, [])"
| "observe (q, b # f) = (q @ b, f)"

text \<open>\<^verbatim>\<open>queue.empty()\<close>, with the world after the call.\<close>

definition queue_empty :: "world \<Rightarrow> bool \<times> world" where
  "queue_empty w = (let w1 = observe w in (fst w1 = [], w1))"

text \<open>
  \<^verbatim>\<open>queue.get()\<close> blocks until a command is there. \<open>None\<close>: the queue is empty and
  nothing is put any more, the thread waits for ever.
\<close>

fun queue_get :: "world \<Rightarrow> (command \<times> world) option" where
  "queue_get (c # q, f) = Some (c, (q, f))"
| "queue_get ([], []) = None"
| "queue_get ([], b # f) = queue_get (b, f)"

subsection \<open>Events\<close>

datatype event =
    DriverWrite int
  | GpioOutput int
  | ZeroOn
  | ZeroOff
  | ZeroClose
  | Sleep rat
  | LogNoSave
  | LogBadModifier
  | LogBadCommand
  | LogError exn

text \<open>Lines 153 to 158: the pin is set through whichever driver the instance has.\<close>

fun pin_write :: "driver \<Rightarrow> int \<Rightarrow> event" where
  "pin_write Pigpio v = DriverWrite v"
| "pin_write DRIVER_RPIGPIO v = GpioOutput v"
| "pin_write DRIVER_GPIOZERO v = (if v \<noteq> 0 then ZeroOn else ZeroOff)"

text \<open>Lines 163 and 164: only the gpiozero device is closed when the thread exits.\<close>

fun close_events :: "driver \<Rightarrow> event list" where
  "close_events DRIVER_GPIOZERO = [ZeroClose]"
| "close_events d = []"

subsection \<open>Playing a bitstream\<close>

text \<open>
  The \<^verbatim>\<open>for\<close> loop of lines 150 to 159. A \<^verbatim>\<open>break\<close> and the normal end of the loop
  continue at the same place, so both return \<open>None\<close>; \<open>Some e\<close> is an exception.
  \<^verbatim>\<open>time.sleep\<close> raises \<^verbatim>\<open>ValueError\<close> on a negative length, after the pin was set.
\<close>

fun play_bits :: "env \<Rightarrow> rat \<Rightarrow> string \<Rightarrow> world \<Rightarrow> exn option \<times> world \<times> event list" where
  "play_bits E period [] w = (None, w, [])"
| "play_bits E period (b # rest) w =
     (case queue_empty w of
        (False, w1) \<Rightarrow> (None, w1, [])
      | (True, w1) \<Rightarrow>
          (case int_bit b of
             None \<Rightarrow> (Some ValueError, w1, [])
           | Some v \<Rightarrow>
               if period < 0 then (Some ValueError, w1, [pin_write (driver E) v])
               else
                 (case play_bits E period rest w1 of
                    (r, w2, ev) \<Rightarrow> (r, w2, pin_write (driver E) v # Sleep period # ev))))"

text \<open>
  How the \<^verbatim>\<open>while True\<close> loop of lines 147 to 169 is left: the \<^verbatim>\<open>break\<close> of line 149
  (a command is pending), the \<^verbatim>\<open>break\<close> of line 169 (the count reached zero),
  \<^verbatim>\<open>sys.exit()\<close>, an exception; or not at all within the given number of rounds.
\<close>

datatype status = BreakPending | BreakCount | SysExit | Raised exn | OutOfFuel

fun play :: "nat \<Rightarrow> env \<Rightarrow> bool \<Rightarrow> rat \<Rightarrow> string \<Rightarrow> int \<Rightarrow> world \<Rightarrow> status \<times> world \<times> event list" where
  "play 0 E do_exit period bitstream rptcnt w = (OutOfFuel, w, [])"
| "play (Suc k) E do_exit period bitstream rptcnt w =
     (case queue_empty w of
        (False, w1) \<Rightarrow> (BreakPending, w1, [])
      | (True, w1) \<Rightarrow>
          (case play_bits E period bitstream w1 of
             (Some e, w2, ev) \<Rightarrow> (Raised e, w2, ev)
           | (None, w2, ev) \<Rightarrow>
               if do_exit then (SysExit, w2, ev @ close_events (driver E))
               else if rptcnt > 0 then
                 (if rptcnt - 1 = 0 then (BreakCount, w2, ev)
                  else
                    (case play k E do_exit period bitstream (rptcnt - 1) w2 of
                       (s, w3, ev') \<Rightarrow> (s, w3, ev @ ev')))
               else
                 (case play k E do_exit period bitstream rptcnt w2 of
                    (s, w3, ev') \<Rightarrow> (s, w3, ev @ ev'))))"

subsection \<open>One command\<close>

text \<open>The variables of the thread that live across commands.\<close>

record pstate =
  cmd :: "command option"
  cmd_prior :: "command option"
  cmd_save :: "command option"
  do_exit :: bool

definition init_state :: pstate where
  "init_state = \<lparr>cmd = None, cmd_prior = None, cmd_save = None, do_exit = False\<rparr>"

text \<open>Lines 137 to 139, for a command of three or four elements.\<close>

definition decode :: "env \<Rightarrow> command \<Rightarrow> exn + (rat \<times> string \<times> int)" where
  "decode E c =
     (case py_float E (c ! 0) of
        Inl e \<Rightarrow> Inl e
      | Inr x \<Rightarrow>
          (case py_list (c ! 1) of
             Inl e \<Rightarrow> Inl e
           | Inr bitstream \<Rightarrow>
               (case py_int E (c ! 2) of
                  Inl e \<Rightarrow> Inl e
                | Inr rptcnt \<Rightarrow> Inr (x / 1000, bitstream, rptcnt))))"

text \<open>
  What one round of the outer loop comes to: back to \<^verbatim>\<open>queue.get()\<close> (by
  \<^verbatim>\<open>continue\<close>, by a \<^verbatim>\<open>break\<close> of the inner loop or through the exception handler), the
  end of the thread, or an inner loop still running when the fuel is used up.
\<close>

datatype outcome = Continue | ThreadExit | Timeout

text \<open>
  Lines 136 to 171 for the command \<open>c\<close> that \<^verbatim>\<open>cmd\<close> holds after the flag was resolved.
\<close>

definition playback :: "nat \<Rightarrow> env \<Rightarrow> pstate \<Rightarrow> command \<Rightarrow> world \<Rightarrow> outcome \<times> pstate \<times> world \<times> event list" where
  "playback fuel E st c w =
     (if length c = 3 \<or> length c = 4 then
        (case decode E c of
           Inl e \<Rightarrow> (Continue, st, w, [LogError e])
         | Inr (period, bitstream, rptcnt) \<Rightarrow>
             (case play fuel E (do_exit st) period bitstream rptcnt w of
                (BreakPending, w', ev) \<Rightarrow> (Continue, st, w', ev)
              | (BreakCount, w', ev) \<Rightarrow> (Continue, st, w', ev)
              | (SysExit, w', ev) \<Rightarrow> (ThreadExit, st, w', ev)
              | (Raised e, w', ev) \<Rightarrow> (Continue, st, w', ev @ [LogError e])
              | (OutOfFuel, w', ev) \<Rightarrow> (Timeout, st, w', ev)))
      else (Continue, st, w, [LogBadCommand]))"

text \<open>
  Lines 113 to 171 for the command \<open>c\<close> that \<^verbatim>\<open>queue.get()\<close> returned.
\<close>

definition iteration :: "nat \<Rightarrow> env \<Rightarrow> pstate \<Rightarrow> command \<Rightarrow> world \<Rightarrow> outcome \<times> pstate \<times> world \<times> event list" where
  "iteration fuel E st c w =
     (let st1 = st\<lparr>cmd_prior := cmd st, cmd := Some c\<rparr> in
      if length c = 4 then
        (if c ! 3 = PInt CMD_SAVE then
           playback fuel E (st1\<lparr>cmd_save := cmd_prior st1\<rparr>) c w
         else if c ! 3 = PInt CMD_RESTORE then
           (case cmd_save st1 of
              Some s \<Rightarrow> playback fuel E (st1\<lparr>cmd := Some s\<rparr>) s w
            | None \<Rightarrow> (Continue, st1, w, [LogNoSave]))
         else if c ! 3 = PInt CMD_EXIT then
           playback fuel E (st1\<lparr>do_exit := True\<rparr>) c w
         else (Continue, st1, w, [LogBadModifier]))
      else playback fuel E st1 c w)"

subsection \<open>The thread\<close>

datatype final = Waiting | Exited | Running

fun blinky_loop :: "nat \<Rightarrow> env \<Rightarrow> pstate \<Rightarrow> world \<Rightarrow> final \<times> pstate \<times> world \<times> event list" where
  "blinky_loop 0 E st w = (Running, st, w, [])"
| "blinky_loop (Suc k) E st w =
     (case queue_get w of
        None \<Rightarrow> (Waiting, st, ([], []), [])
      | Some (c, w1) \<Rightarrow>
          (case iteration k E st c w1 of
             (Continue, st', w', ev) \<Rightarrow>
               (case blinky_loop k E st' w' of
                  (r, st'', w'', ev') \<Rightarrow> (r, st'', w'', ev @ ev'))
           | (ThreadExit, st', w', ev) \<Rightarrow> (Exited, st', w', ev)
           | (Timeout, st', w', ev) \<Rightarrow> (Running, st', w', ev)))"

definition blinky :: "nat \<Rightarrow> env \<Rightarrow> world \<Rightarrow> final \<times> pstate \<times> world \<times> event list" where
  "blinky fuel E w = blinky_loop fuel E init_state w"

subsection \<open>Vocabulary of the properties\<close>

text \<open>
  One bit step is the pin set to the bit's level followed by one hold of \<open>period\<close>
  seconds; a pass is one bit step per character of the bitstream, first character first.
\<close>

definition bit_step :: "env \<Rightarrow> rat \<Rightarrow> char \<Rightarrow> event list" where
  "bit_step E period b =
     (case int_bit b of None \<Rightarrow> [] | Some v \<Rightarrow> [pin_write (driver E) v, Sleep period])"

definition pass :: "env \<Rightarrow> rat \<Rightarrow> string \<Rightarrow> event list" where
  "pass E period bits = concat (map (bit_step E period) bits)"

definition passes :: "nat \<Rightarrow> env \<Rightarrow> rat \<Rightarrow> string \<Rightarrow> event list" where
  "passes n E period bits = concat (replicate n (pass E period bits))"

text \<open>A bitstream as the documentation describes it: every character is 0 or 1.\<close>

definition valid_bits :: "string \<Rightarrow> bool" where
  "valid_bits bits = (\<forall>b \<in> set bits. b = CHR ''0'' \<or> b = CHR ''1'')"

text \<open>No command is queued and none is put later on.\<close>

definition quiet :: "world \<Rightarrow> bool" where
  "quiet w = (fst w = [] \<and> (\<forall>b \<in> set (snd w). b = []))"


definition lead :: "world \<Rightarrow> nat" where
  "lead w = (if fst w \<noteq> [] then 0 else length (takeWhile (\<lambda>b. b = []) (snd w)))"



text \<open>The lines that report a discarded or failed command.\<close>

fun is_log :: "event \<Rightarrow> bool" where
  "is_log LogNoSave = True"
| "is_log LogBadModifier = True"
| "is_log LogBadCommand = True"
| "is_log (LogError e) = True"
| "is_log e = False"

definition is_save :: "command \<Rightarrow> bool" where
  "is_save c = (length c = 4 \<and> c ! 3 = PInt CMD_SAVE)"

definition is_restore :: "command \<Rightarrow> bool" where
  "is_restore c = (length c = 4 \<and> c ! 3 = PInt CMD_RESTORE)"

text \<open>
  The thread's variables after it took the given commands from its queue one after the
  other, each in some world and with some fuel of its own, provided that every one of
  them led back to \<^verbatim>\<open>queue.get()\<close>; \<open>None\<close> otherwise.
\<close>

fun alive_after :: "env \<Rightarrow> pstate \<Rightarrow> (command \<times> nat \<times> world) list \<Rightarrow> pstate option" where
  "alive_after E st [] = Some st"
| "alive_after E st ((c, fuel, w) # rest) =
     (case iteration fuel E st c w of
        (Continue, st', w', ev) \<Rightarrow> alive_after E st' rest
      | (ThreadExit, st', w', ev) \<Rightarrow> None
      | (Timeout, st', w', ev) \<Rightarrow> None)"

text \<open>
  The instance of the examples: the RPi.GPIO driver, the demo program's default. No
  example has a string where a number is expected, so the two string conversions are
  never called there.
\<close>

definition example_env :: env where
  "example_env = \<lparr>driver = DRIVER_RPIGPIO, float_of_str = (\<lambda>s. None), int_of_str = (\<lambda>s. None)\<rparr>"

lemmas eval_defs =
  blinky_def example_env_def init_state_def iteration_def playback_def decode_def
  queue_empty_def int_bit_def CMD_EXIT_def CMD_SAVE_def CMD_RESTORE_def
  passes_def pass_def bit_step_def valid_bits_def quiet_def is_save_def is_restore_def

section \<open>Properties\<close>

subsection \<open>Playback while nothing is queued\<close>

lemma int_bit_valid: "b = CHR ''0'' \<or> b = CHR ''1'' \<Longrightarrow> int_bit b \<noteq> None"
  by (auto simp: int_bit_def)

lemma observe_quiet: "quiet w \<Longrightarrow> quiet (observe w)"
  by (cases w rule: observe.cases) (auto simp: quiet_def)

lemma observe_fst_quiet: "quiet w \<Longrightarrow> fst (observe w) = []"
  by (cases w rule: observe.cases) (auto simp: quiet_def)

lemma queue_empty_quiet: "quiet w \<Longrightarrow> queue_empty w = (True, observe w)"
  by (simp add: queue_empty_def Let_def observe_fst_quiet)

lemma funpow_observe_quiet: "quiet w \<Longrightarrow> quiet ((observe ^^ n) w)"
  by (induction n) (auto simp: observe_quiet)


lemma pass_Cons: "pass E period (b # bits) = bit_step E period b @ pass E period bits"
  by (simp add: pass_def)


lemma play_bits_quiet:
  "quiet w \<Longrightarrow> 0 \<le> period \<Longrightarrow> valid_bits bits \<Longrightarrow>
   play_bits E period bits w = (None, (observe ^^ length bits) w, pass E period bits)"
proof (induction bits arbitrary: w)
  case Nil
  then show ?case by (simp add: pass_def)
next
  case (Cons b bits)
  from Cons.prems have vb: "valid_bits bits" and b: "int_bit b \<noteq> None"
    by (auto simp: valid_bits_def int_bit_valid)
  then obtain v where v: "int_bit b = Some v" by auto
  have "play_bits E period bits (observe w) =
          (None, (observe ^^ length bits) (observe w), pass E period bits)"
    using Cons.IH [OF observe_quiet [OF Cons.prems(1)] Cons.prems(2) vb] .
  then show ?case
    using Cons.prems(1,2) v
    by (simp add: queue_empty_quiet pass_Cons bit_step_def funpow_swap1)
qed

lemma play_bits_quiet':
  assumes "quiet w" "0 \<le> period" "valid_bits bits"
  obtains w' where "quiet w'" "play_bits E period bits w = (None, w', pass E period bits)"
  using play_bits_quiet [OF assms] funpow_observe_quiet [OF assms(1)] by blast





lemma iteration_plain:
  assumes "length c = 3"
  shows "iteration fuel E st c w = playback fuel E (st\<lparr>cmd_prior := cmd st, cmd := Some c\<rparr>) c w"
  using assms by (simp add: iteration_def Let_def)

lemma playback_state: "fst (snd (playback fuel E st c w)) = st"
  by (simp add: playback_def split: sum.splits prod.splits status.splits)


subsection \<open>Playback and pending commands\<close>



lemma queue_empty_False: "queue_empty w = (False, w1) \<Longrightarrow> fst w1 \<noteq> []"
  by (auto simp: queue_empty_def Let_def)






lemma play_BreakPending:
  "play fuel E ex period bits rptcnt w = (BreakPending, w', ev) \<Longrightarrow> fst w' \<noteq> []"
proof (induction fuel arbitrary: w rptcnt ev)
  case 0
  then show ?case by simp
next
  case (Suc k)
  from Suc.prems Suc.IH show ?case
    by (cases ex)
      (fastforce split: prod.splits option.splits bool.splits if_splits
        dest: queue_empty_False)+
qed












subsection \<open>Repeat counts\<close>






text \<open>
  The exit flag is not set at the start, and a round of the outer loop that comes back to
  \<^verbatim>\<open>queue.get()\<close> with nothing pending and nothing reported leaves it not set: a thread
  whose commands were neither preempted nor in error takes every command with the flag
  not set.
\<close>

lemma play_BreakCount:
  "play fuel E ex period bits rptcnt w = (BreakCount, w', ev) \<Longrightarrow> \<not> ex"
proof (induction fuel arbitrary: w rptcnt ev)
  case 0
  then show ?case by simp
next
  case (Suc k)
  from Suc.prems Suc.IH show ?case
    by (cases ex) (fastforce split: prod.splits option.splits bool.splits if_splits)+
qed

lemma playback_flag_clear:
  assumes "playback fuel E st c w = (Continue, st', w', ev)"
    and "fst w' = []" and "\<forall>e \<in> set ev. \<not> is_log e"
  shows "\<not> do_exit st'"
proof -
  have st': "st' = st" using playback_state [of fuel E st c w] assms(1) by simp
  show ?thesis
  proof (cases "length c = 3 \<or> length c = 4")
    case False
    then show ?thesis using assms(1,3) by (auto simp: playback_def)
  next
    case True
    show ?thesis
    proof (cases "decode E c")
      case (Inl e)
      then show ?thesis using True assms(1,3) by (auto simp: playback_def)
    next
      case (Inr y)
      obtain period bs rptcnt where y: "y = (period, bs, rptcnt)" by (cases y) auto
      obtain s w2 ev2 where p: "play fuel E (do_exit st) period bs rptcnt w = (s, w2, ev2)"
        by (cases "play fuel E (do_exit st) period bs rptcnt w") auto
      show ?thesis
      proof (cases s)
        case BreakPending
        then show ?thesis
          using play_BreakPending [of fuel E "do_exit st" period bs rptcnt w w2 ev2]
            p True Inr y assms(1,2) by (auto simp: playback_def)
      next
        case BreakCount
        then show ?thesis
          using play_BreakCount [of fuel E "do_exit st" period bs rptcnt w w2 ev2] p st'
          by simp
      next
        case SysExit
        then show ?thesis using p True Inr y assms(1) by (auto simp: playback_def)
      next
        case (Raised e)
        then show ?thesis using p True Inr y assms(1,3) by (auto simp: playback_def)
      next
        case OutOfFuel
        then show ?thesis using p True Inr y assms(1) by (auto simp: playback_def)
      qed
    qed
  qed
qed

lemma exit_flag_clear_on_return:
  assumes "iteration fuel E st c w = (Continue, st', w', ev)"
    and "fst w' = []" and "\<forall>e \<in> set ev. \<not> is_log e"
  shows "\<not> do_exit st'"
  using assms
  by (auto simp: iteration_def Let_def split: if_splits option.splits
      dest: playback_flag_clear)










subsection \<open>Preemption\<close>



text \<open>A command put during the second bit step: the third bit step does not start.\<close>

lemma preemption_example:
  "play 3 example_env False (1 / 20) ''1000'' (- 1)
      ([], [[], [], [], [[PInt 0, PStr ''0'', PInt 1]]]) =
     (BreakPending, ([[PInt 0, PStr ''0'', PInt 1]], []),
      [GpioOutput 1, Sleep (1 / 20), GpioOutput 0, Sleep (1 / 20)]) \<and>
   lead ([], [[], [], [], [[PInt 0, PStr ''0'', PInt 1]]]) = 3"
  by (simp add: eval_defs lead_def numeral_eq_Suc)

subsection \<open>Save and restore\<close>

lemma iteration_not_restore:
  assumes "\<not> is_restore c"
  shows "cmd (fst (snd (iteration fuel E st c w))) = Some c"
  using assms
  by (simp add: iteration_def is_restore_def Let_def playback_state)

lemma iteration_save:
  assumes "is_save c"
  shows "fst (snd (iteration fuel E st c w)) =
           st\<lparr>cmd_prior := cmd st, cmd := Some c, cmd_save := cmd st\<rparr>"
  using assms by (simp add: iteration_def is_save_def Let_def playback_state)

lemma iteration_restore:
  assumes "is_restore c" and "cmd_save st = Some A"
  shows "iteration fuel E st c w = playback fuel E (st\<lparr>cmd_prior := cmd st, cmd := Some A\<rparr>) A w"
  using assms
  by (simp add: iteration_def is_restore_def Let_def CMD_SAVE_def CMD_RESTORE_def)

lemma alive_after_restores:
  "alive_after E st Rs = Some st' \<Longrightarrow> cmd_save st = Some A \<Longrightarrow>
   \<forall>x \<in> set Rs. is_restore (fst x) \<Longrightarrow> cmd_save st' = Some A"
proof (induction Rs arbitrary: st)
  case Nil
  then show ?case by simp
next
  case (Cons x Rs)
  obtain c fuel w where x: "x = (c, fuel, w)" by (cases x) auto
  have r: "is_restore c" using Cons.prems(3) x by simp
  let ?st1 = "fst (snd (iteration fuel E st c w))"
  have s1: "cmd_save ?st1 = Some A"
    using iteration_restore [OF r Cons.prems(2), of fuel E w] Cons.prems(2)
    by (simp add: playback_state)
  have "alive_after E ?st1 Rs = Some st'"
    using Cons.prems(1) x by (auto split: prod.splits outcome.splits)
  from Cons.IH [OF this s1] Cons.prems(3) show ?case by simp
qed



text \<open>
  Claim C5. After a command \<open>A\<close>, a command with the save flag and any number of commands
  with the restore flag, the save slot holds \<open>A\<close>, and one more restore command, whatever
  its own three fields, is played from \<open>A\<close>'s fields: it does what lines 136 to 171 do
  for \<open>A\<close>, and if \<open>A\<close> has no flag, exactly what \<open>A\<close> itself would do if it were put again.
\<close>

theorem save_restore_round_trip:
  assumes "alive_after E st0 ((A, fa, wa) # (B, fb, wb) # Rs) = Some st"
    and "\<not> is_restore A" and "is_save B" and "\<forall>x \<in> set Rs. is_restore (fst x)"
    and "is_restore R"
  shows "cmd_save st = Some A \<and>
         iteration fuel E st R w =
           playback fuel E (st\<lparr>cmd_prior := cmd st, cmd := Some A\<rparr>) A w \<and>
         (length A = 3 \<longrightarrow> iteration fuel E st R w = iteration fuel E st A w)"
proof -
  let ?st1 = "fst (snd (iteration fa E st0 A wa))"
  let ?st2 = "fst (snd (iteration fb E ?st1 B wb))"
  have alive: "alive_after E ?st2 Rs = Some st"
    using assms(1) by (auto split: prod.splits outcome.splits)
  have "cmd ?st1 = Some A" using assms(2) by (rule iteration_not_restore)
  then have "cmd_save ?st2 = Some A"
    using iteration_save [OF assms(3), of fb E ?st1 wb] by simp
  from alive_after_restores [OF alive this assms(4)]
  have s: "cmd_save st = Some A" .
  show ?thesis
    using s iteration_restore [OF assms(5) s, of fuel E w] iteration_plain [of A fuel E st w]
    by simp
qed

theorem save_restore_round_trip_witness:
  "iteration 2 example_env
     \<lparr>cmd = Some [PInt 200, PStr ''10'', PInt 2],
      cmd_prior = Some [PInt 50, PStr ''10'', PInt 1, PInt CMD_SAVE],
      cmd_save = Some [PInt 200, PStr ''10'', PInt 2], do_exit = False\<rparr>
     [PInt 0, PInt 0, PInt 0, PInt CMD_RESTORE] ([], []) =
   (Continue,
    \<lparr>cmd = Some [PInt 200, PStr ''10'', PInt 2],
     cmd_prior = Some [PInt 200, PStr ''10'', PInt 2],
     cmd_save = Some [PInt 200, PStr ''10'', PInt 2], do_exit = False\<rparr>,
    ([], []),
    [GpioOutput 1, Sleep (1 / 5), GpioOutput 0, Sleep (1 / 5),
     GpioOutput 1, Sleep (1 / 5), GpioOutput 0, Sleep (1 / 5)])"
  using save_restore_round_trip
     [where E = example_env and ?st0.0 = init_state
        and A = "[PInt 200, PStr ''10'', PInt 2]" and fa = 2 and wa = "([], [])"
        and B = "[PInt 50, PStr ''10'', PInt 1, PInt CMD_SAVE]" and fb = 1 and wb = "([], [])"
        and Rs = "[([PInt 0, PStr ''0'', PInt 0, PInt CMD_RESTORE], 2, ([], []))]"
        and st = "\<lparr>cmd = Some [PInt 200, PStr ''10'', PInt 2],
                   cmd_prior = Some [PInt 50, PStr ''10'', PInt 1, PInt CMD_SAVE],
                   cmd_save = Some [PInt 200, PStr ''10'', PInt 2], do_exit = False\<rparr>"
        and R = "[PInt 0, PInt 0, PInt 0, PInt CMD_RESTORE]" and fuel = 2 and w = "([], [])"]
  by (simp add: eval_defs numeral_eq_Suc)

text \<open>
  Claim C3 as stated fails. The restore command that finds the save slot empty becomes the
  value of \<^verbatim>\<open>cmd\<close>, and the command played before becomes \<^verbatim>\<open>cmd_prior\<close>; a save command
  that follows saves the restore command, not the command played before it.
\<close>

theorem restore_without_save_counterexample:
  "iteration 1 example_env
     \<lparr>cmd = Some [PInt 500, PStr ''10'', PInt 2], cmd_prior = None, cmd_save = None,
      do_exit = False\<rparr>
     [PInt 0, PStr ''0'', PInt 0, PInt CMD_RESTORE] ([], []) =
   (Continue,
    \<lparr>cmd = Some [PInt 0, PStr ''0'', PInt 0, PInt CMD_RESTORE],
     cmd_prior = Some [PInt 500, PStr ''10'', PInt 2], cmd_save = None, do_exit = False\<rparr>,
    ([], []), [LogNoSave]) \<and>
   blinky 4 example_env
     ([], [[[PInt 500, PStr ''10'', PInt 2]], [], [],
           [[PInt 0, PStr ''0'', PInt 0, PInt CMD_RESTORE]],
           [[PInt 50, PStr ''1'', PInt 1, PInt CMD_SAVE]]]) =
   (Waiting,
    \<lparr>cmd = Some [PInt 50, PStr ''1'', PInt 1, PInt CMD_SAVE],
     cmd_prior = Some [PInt 0, PStr ''0'', PInt 0, PInt CMD_RESTORE],
     cmd_save = Some [PInt 0, PStr ''0'', PInt 0, PInt CMD_RESTORE], do_exit = False\<rparr>,
    ([], []),
    [GpioOutput 1, Sleep (1 / 2), LogNoSave, GpioOutput 1, Sleep (1 / 20)])"
  by (simp add: eval_defs numeral_eq_Suc)

text \<open>
  Claim C3, amended. A restore command taken while the save slot is empty is reported and
  discarded: nothing is written to the pin, the world, the save slot and the exit flag stay
  as they were. \<^verbatim>\<open>cmd\<close> holds the discarded restore command afterwards and
  \<^verbatim>\<open>cmd_prior\<close> the command \<^verbatim>\<open>cmd\<close> held before, so that a save command taken next
  saves the restore command.
\<close>

theorem restore_without_save_is_discarded:
  assumes "is_restore c" and "cmd_save st = None"
  shows "iteration fuel E st c w =
           (Continue, st\<lparr>cmd_prior := cmd st, cmd := Some c\<rparr>, w, [LogNoSave]) \<and>
         (is_save s \<longrightarrow>
            cmd_save (fst (snd (iteration k E (st\<lparr>cmd_prior := cmd st, cmd := Some c\<rparr>) s w')))
              = Some c)"
  using assms iteration_save [of s k E "st\<lparr>cmd_prior := cmd st, cmd := Some c\<rparr>" w']
  by (simp add: iteration_def Let_def is_restore_def CMD_SAVE_def CMD_RESTORE_def)

theorem restore_without_save_is_discarded_witness:
  "iteration 1 example_env init_state [PInt 0, PStr ''0'', PInt 0, PInt CMD_RESTORE] ([], []) =
     (Continue, init_state\<lparr>cmd := Some [PInt 0, PStr ''0'', PInt 0, PInt CMD_RESTORE]\<rparr>,
      ([], []), [LogNoSave]) \<and>
   cmd_save (fst (snd (iteration 1 example_env
      (init_state\<lparr>cmd := Some [PInt 0, PStr ''0'', PInt 0, PInt CMD_RESTORE]\<rparr>)
      [PInt 50, PStr ''1'', PInt 1, PInt CMD_SAVE] ([], [])))) =
     Some [PInt 0, PStr ''0'', PInt 0, PInt CMD_RESTORE]"
  using restore_without_save_is_discarded
     [where c = "[PInt 0, PStr ''0'', PInt 0, PInt CMD_RESTORE]" and st = init_state
        and fuel = 1 and E = example_env and w = "([], [])"
        and s = "[PInt 50, PStr ''1'', PInt 1, PInt CMD_SAVE]" and k = 1 and w' = "([], [])"]
  by (simp add: is_restore_def is_save_def init_state_def)

subsection \<open>Malformed commands\<close>






subsection \<open>Exit\<close>

text \<open>
  An exit command taken while nothing is queued plays its bitstream once and ends the
  thread.
\<close>

lemma exit_plays_one_pass_when_quiet:
  assumes "0 \<le> p" and "valid_bits bits" and "quiet w"
  shows "\<exists>w'. iteration (Suc fuel) E st [PInt p, PStr bits, PInt n, PInt CMD_EXIT] w =
           (ThreadExit,
            st\<lparr>cmd_prior := cmd st, cmd := Some [PInt p, PStr bits, PInt n, PInt CMD_EXIT],
               do_exit := True\<rparr>,
            w', pass E (of_int p / 1000) bits @ close_events (driver E))"
proof -
  have per: "0 \<le> (of_int p / 1000 :: rat)" using assms(1) by simp
  obtain w2 where w2: "quiet w2"
      "play_bits E (of_int p / 1000) bits (observe w) = (None, w2, pass E (of_int p / 1000) bits)"
    using play_bits_quiet' [OF observe_quiet [OF assms(3)] per assms(2)] by blast
  have d: "decode E [PInt p, PStr bits, PInt n, PInt CMD_EXIT] = Inr (of_int p / 1000, bits, n)"
    by (simp add: decode_def)
  show ?thesis
    using w2(2) queue_empty_quiet [OF assms(3)] d
    by (simp add: iteration_def playback_def Let_def CMD_EXIT_def CMD_SAVE_def CMD_RESTORE_def
        del: split_paired_Ex)
qed

text \<open>
  Claim C6. The module's documentation says of the exit flag: execute the current command
  and exit the thread. With another command already queued behind it, the exit command
  \<^verbatim>\<open>[0, "0", 1, CMD_EXIT]\<close> is left at line 149 before its bit is written and the thread
  goes on: it takes the next command \<^verbatim>\<open>[500, "1", 3]\<close>, plays one pass of it with the exit
  flag still set, and ends with the pin on.
\<close>

theorem exit_preempted_evaluation:
  "blinky 3 example_env
     ([[PInt 0, PStr ''0'', PInt 1, PInt CMD_EXIT], [PInt 500, PStr ''1'', PInt 3]], []) =
   (Exited,
    \<lparr>cmd = Some [PInt 500, PStr ''1'', PInt 3],
     cmd_prior = Some [PInt 0, PStr ''0'', PInt 1, PInt CMD_EXIT],
     cmd_save = None, do_exit = True\<rparr>,
    ([], []), [GpioOutput 1, Sleep (1 / 2)])"
  by (simp add: eval_defs numeral_eq_Suc)

end
